theory Spec2Isabelle
  imports Main "HOL-Library.Word" "HOL-Library.Signed_Division"
begin

section \<open>The saturating integer of \<^verbatim>\<open>elfio/elf_integer.hpp\<close>\<close>

text \<open>
  \<^verbatim>\<open>template <typename T> struct elf_integer { T value; ... }\<close> wraps one value of a
  fixed-width signed integer type \<open>T\<close>. A \<open>w\<close>-bit \<open>T\<close> is the type \<open>'a word\<close> with
  \<open>LENGTH('a) = w\<close>, read as two's complement by \<open>sint\<close>; \<open>int8_t\<close> is \<open>8 word\<close>,
  \<open>int32_t\<close> is \<open>32 word\<close>.
\<close>

record (overloaded) 'a elf_integer =
  "value" :: "'a::len word"

subsection \<open>The arithmetic of C++ expressions\<close>

text \<open>
  C++ evaluates the operators \<open>+ - * / %\<close> and the comparisons on operands of type \<open>T\<close>
  after the integral promotions: an operand whose type is narrower than \<open>int\<close> is
  converted to \<open>int\<close>, a wider one keeps its type. The result has the promoted type and
  is not narrowed before it is compared or stored. A result that the promoted type
  cannot represent is undefined behaviour, and so is division by zero; both are error
  values of the model. \<open>int\<close> has 32 bits.
\<close>

datatype ub = SignedOverflow | DivisionByZero

definition int_bits :: nat where
  "int_bits = 32"

definition promoted_bits :: "nat \<Rightarrow> nat" where
  "promoted_bits w = (if w < int_bits then int_bits else w)"

definition representable :: "nat \<Rightarrow> int \<Rightarrow> bool" where
  "representable w x \<longleftrightarrow> - (2 ^ (w - 1)) \<le> x \<and> x < 2 ^ (w - 1)"

definition checked :: "nat \<Rightarrow> int \<Rightarrow> ub + int" where
  "checked w x = (if representable w x then Inr x else Inl SignedOverflow)"

definition c_add :: "nat \<Rightarrow> int \<Rightarrow> int \<Rightarrow> ub + int" where
  "c_add w a b = checked w (a + b)"

definition c_sub :: "nat \<Rightarrow> int \<Rightarrow> int \<Rightarrow> ub + int" where
  "c_sub w a b = checked w (a - b)"

definition c_mul :: "nat \<Rightarrow> int \<Rightarrow> int \<Rightarrow> ub + int" where
  "c_mul w a b = checked w (a * b)"

definition c_neg :: "nat \<Rightarrow> int \<Rightarrow> ub + int" where
  "c_neg w a = checked w (- a)"

text \<open>
  \<open>a / b\<close> truncates towards zero (\<open>sdiv\<close>); \<open>a % b\<close> is the remainder of that division
  (\<open>smod\<close>) and is undefined whenever \<open>a / b\<close> is.
\<close>

definition c_div :: "nat \<Rightarrow> int \<Rightarrow> int \<Rightarrow> ub + int" where
  "c_div w a b = (if b = 0 then Inl DivisionByZero else checked w (a sdiv b))"

definition c_rem :: "nat \<Rightarrow> int \<Rightarrow> int \<Rightarrow> ub + int" where
  "c_rem w a b =
     (if b = 0 then Inl DivisionByZero
      else if representable w (a sdiv b) then Inr (a smod b)
      else Inl SignedOverflow)"

text \<open>Sequencing: the first undefined step decides the outcome.\<close>

definition ub_bind :: "ub + 'x \<Rightarrow> ('x \<Rightarrow> ub + 'y) \<Rightarrow> ub + 'y" where
  "ub_bind m f = (case m of Inl e \<Rightarrow> Inl e | Inr x \<Rightarrow> f x)"

text \<open>\<open>c && d\<close> evaluates \<open>d\<close> only when \<open>c\<close> is true.\<close>

definition sc_and :: "bool \<Rightarrow> ub + bool \<Rightarrow> ub + bool" where
  "sc_and c d = (if c then d else Inr False)"

text \<open>
  \<open>std::numeric_limits<T>::min()\<close> and \<open>max()\<close>, of type \<open>T\<close>.
\<close>

definition numeric_limits_min :: "'a::len word" where
  "numeric_limits_min = word_of_int (- (2 ^ (LENGTH('a) - 1)))"

definition numeric_limits_max :: "'a::len word" where
  "numeric_limits_max = word_of_int (2 ^ (LENGTH('a) - 1) - 1)"

text \<open>
  Storing a promoted result into \<open>value\<close> converts it to \<open>T\<close>: a representable value is
  kept, any other is reduced modulo \<open>2 ^ w\<close>.
\<close>

definition store :: "'a::len elf_integer \<Rightarrow> int \<Rightarrow> 'a elf_integer" where
  "store this x = this\<lparr>value := word_of_int x\<rparr>"

subsection \<open>Construction from another width\<close>

text \<open>
  \<^verbatim>\<open>template <typename U> elf_integer( const elf_integer<U>& other ) : value( other.value )\<close>:
  the member initialiser converts \<open>other.value\<close> from \<open>U\<close> to \<open>T\<close> (\<open>scast\<close>: the value
  when \<open>T\<close> represents it, else its low \<open>w\<close> bits), and the body then compares the
  member \<open>value\<close>, which has type \<open>T\<close>, with the bounds of \<open>T\<close>.
\<close>

definition elf_integer_from :: "'b::len elf_integer \<Rightarrow> 'a::len elf_integer" where
  "elf_integer_from other =
     (let this = \<lparr>value = scast (value other)\<rparr> in
      if sint (value this) > sint (numeric_limits_max :: 'a word)
        then this\<lparr>value := numeric_limits_max\<rparr>
      else if sint (value this) < sint (numeric_limits_min :: 'a word)
        then this\<lparr>value := numeric_limits_min\<rparr>
      else this)"

subsection \<open>Compound assignment\<close>

text \<open>
  A compound assignment takes the state of \<open>*this\<close> and the object \<open>other\<close> refers to,
  and returns the new state of \<open>*this\<close> (the reference it returns is \<open>*this\<close>). Every
  branch reads \<open>value\<close> and \<open>other.value\<close> before its only write to \<open>value\<close>, so the
  same function describes the call with \<open>other\<close> aliasing \<open>*this\<close>.
\<close>

definition op_add_assign :: "'a::len elf_integer \<Rightarrow> 'a elf_integer \<Rightarrow> ub + 'a elf_integer" where
  "op_add_assign this other =
     (let P = promoted_bits LENGTH('a);
          v = sint (value this); ov = sint (value other);
          tmax = sint (numeric_limits_max :: 'a word);
          tmin = sint (numeric_limits_min :: 'a word) in
      ub_bind (sc_and (ov > 0) (ub_bind (c_sub P tmax ov) (\<lambda>t. Inr (v > t)))) (\<lambda>c1.
      if c1 then Inr (this\<lparr>value := numeric_limits_max\<rparr>)
      else ub_bind (sc_and (ov < 0) (ub_bind (c_sub P tmin ov) (\<lambda>t. Inr (v < t)))) (\<lambda>c2.
      if c2 then Inr (this\<lparr>value := numeric_limits_min\<rparr>)
      else ub_bind (c_add P v ov) (\<lambda>r. Inr (store this r)))))"

definition op_sub_assign :: "'a::len elf_integer \<Rightarrow> 'a elf_integer \<Rightarrow> ub + 'a elf_integer" where
  "op_sub_assign this other =
     (let P = promoted_bits LENGTH('a);
          v = sint (value this); ov = sint (value other);
          tmax = sint (numeric_limits_max :: 'a word);
          tmin = sint (numeric_limits_min :: 'a word) in
      ub_bind (sc_and (ov > 0) (ub_bind (c_add P tmin ov) (\<lambda>t. Inr (v < t)))) (\<lambda>c1.
      if c1 then Inr (this\<lparr>value := numeric_limits_min\<rparr>)
      else ub_bind (sc_and (ov < 0) (ub_bind (c_add P tmax ov) (\<lambda>t. Inr (v > t)))) (\<lambda>c2.
      if c2 then Inr (this\<lparr>value := numeric_limits_max\<rparr>)
      else ub_bind (c_sub P v ov) (\<lambda>r. Inr (store this r)))))"

definition op_mul_assign :: "'a::len elf_integer \<Rightarrow> 'a elf_integer \<Rightarrow> ub + 'a elf_integer" where
  "op_mul_assign this other =
     (let P = promoted_bits LENGTH('a);
          v = sint (value this); ov = sint (value other);
          tmax = sint (numeric_limits_max :: 'a word);
          tmin = sint (numeric_limits_min :: 'a word) in
      if v = 0 \<or> ov = 0 then Inr (store this 0)
      else
      ub_bind (sc_and (v > 0 \<and> ov > 0) (ub_bind (c_div P tmax ov) (\<lambda>t. Inr (v > t)))) (\<lambda>c1.
      if c1 then Inr (this\<lparr>value := numeric_limits_max\<rparr>)
      else ub_bind (sc_and (v > 0 \<and> ov < 0) (ub_bind (c_div P tmin ov) (\<lambda>t. Inr (v > t)))) (\<lambda>c2.
      if c2 then Inr (this\<lparr>value := numeric_limits_min\<rparr>)
      else ub_bind (sc_and (v < 0 \<and> ov > 0) (ub_bind (c_div P tmin ov) (\<lambda>t. Inr (v < t)))) (\<lambda>c3.
      if c3 then Inr (this\<lparr>value := numeric_limits_min\<rparr>)
      else ub_bind (sc_and (v < 0 \<and> ov < 0) (ub_bind (c_div P tmax ov) (\<lambda>t. Inr (v < t)))) (\<lambda>c4.
      if c4 then Inr (this\<lparr>value := numeric_limits_max\<rparr>)
      else ub_bind (c_mul P v ov) (\<lambda>r. Inr (store this r)))))))"

definition op_div_assign :: "'a::len elf_integer \<Rightarrow> 'a elf_integer \<Rightarrow> ub + 'a elf_integer" where
  "op_div_assign this other =
     (let P = promoted_bits LENGTH('a);
          v = sint (value this); ov = sint (value other);
          tmin = sint (numeric_limits_min :: 'a word) in
      if ov = 0 then Inr (this\<lparr>value := numeric_limits_max\<rparr>)
      else if v = tmin \<and> ov = - 1 then Inr (this\<lparr>value := numeric_limits_max\<rparr>)
      else ub_bind (c_div P v ov) (\<lambda>r. Inr (store this r)))"

definition op_mod_assign :: "'a::len elf_integer \<Rightarrow> 'a elf_integer \<Rightarrow> ub + 'a elf_integer" where
  "op_mod_assign this other =
     (let P = promoted_bits LENGTH('a);
          v = sint (value this); ov = sint (value other);
          tmin = sint (numeric_limits_min :: 'a word) in
      if ov = 0 then Inr (this\<lparr>value := numeric_limits_max\<rparr>)
      else if v = tmin \<and> ov = - 1 then Inr (store this 0)
      else ub_bind (c_rem P v ov) (\<lambda>r. Inr (store this r)))"

subsection \<open>Increment and decrement\<close>

text \<open>
  The prefix forms return the new state of \<open>*this\<close>; the postfix forms return the copy
  \<open>tmp\<close> taken on entry together with \<open>*this\<close> as the call leaves it.
\<close>

definition op_pre_inc :: "'a::len elf_integer \<Rightarrow> ub + 'a elf_integer" where
  "op_pre_inc this =
     (let P = promoted_bits LENGTH('a); v = sint (value this) in
      if v < sint (numeric_limits_max :: 'a word)
        then ub_bind (c_add P v 1) (\<lambda>r. Inr (store this r))
      else Inr this)"

definition op_post_inc :: "'a::len elf_integer \<Rightarrow> ub + ('a elf_integer \<times> 'a elf_integer)" where
  "op_post_inc this =
     (let P = promoted_bits LENGTH('a); v = sint (value this); tmp = this in
      if v < sint (numeric_limits_max :: 'a word)
        then ub_bind (c_add P v 1) (\<lambda>r. Inr (tmp, store this r))
      else Inr (tmp, this))"

definition op_pre_dec :: "'a::len elf_integer \<Rightarrow> ub + 'a elf_integer" where
  "op_pre_dec this =
     (let P = promoted_bits LENGTH('a); v = sint (value this) in
      if v > sint (numeric_limits_min :: 'a word)
        then ub_bind (c_sub P v 1) (\<lambda>r. Inr (store this r))
      else Inr this)"

definition op_post_dec :: "'a::len elf_integer \<Rightarrow> ub + ('a elf_integer \<times> 'a elf_integer)" where
  "op_post_dec this =
     (let P = promoted_bits LENGTH('a); v = sint (value this); tmp = this in
      if v > sint (numeric_limits_min :: 'a word)
        then ub_bind (c_sub P v 1) (\<lambda>r. Inr (tmp, store this r))
      else Inr (tmp, this))"

subsection \<open>Binary operators and negation\<close>

text \<open>
  These are \<open>const\<close> member functions, and the binary ones take \<open>other\<close> by \<open>const\<close>
  reference: they work on the local copy \<open>tmp\<close> of \<open>*this\<close> and return it by value. The
  model returns \<open>tmp\<close> together with the objects \<open>*this\<close> and \<open>other\<close> as the call leaves
  them.
\<close>

definition op_add ::
  "'a::len elf_integer \<Rightarrow> 'a elf_integer \<Rightarrow> ub + ('a elf_integer \<times> 'a elf_integer \<times> 'a elf_integer)" where
  "op_add this other =
     (let tmp = this in ub_bind (op_add_assign tmp other) (\<lambda>tmp. Inr (tmp, this, other)))"

definition op_sub ::
  "'a::len elf_integer \<Rightarrow> 'a elf_integer \<Rightarrow> ub + ('a elf_integer \<times> 'a elf_integer \<times> 'a elf_integer)" where
  "op_sub this other =
     (let tmp = this in ub_bind (op_sub_assign tmp other) (\<lambda>tmp. Inr (tmp, this, other)))"

definition op_mul ::
  "'a::len elf_integer \<Rightarrow> 'a elf_integer \<Rightarrow> ub + ('a elf_integer \<times> 'a elf_integer \<times> 'a elf_integer)" where
  "op_mul this other =
     (let tmp = this in ub_bind (op_mul_assign tmp other) (\<lambda>tmp. Inr (tmp, this, other)))"

definition op_div ::
  "'a::len elf_integer \<Rightarrow> 'a elf_integer \<Rightarrow> ub + ('a elf_integer \<times> 'a elf_integer \<times> 'a elf_integer)" where
  "op_div this other =
     (let tmp = this in ub_bind (op_div_assign tmp other) (\<lambda>tmp. Inr (tmp, this, other)))"

definition op_mod ::
  "'a::len elf_integer \<Rightarrow> 'a elf_integer \<Rightarrow> ub + ('a elf_integer \<times> 'a elf_integer \<times> 'a elf_integer)" where
  "op_mod this other =
     (let tmp = this in ub_bind (op_mod_assign tmp other) (\<lambda>tmp. Inr (tmp, this, other)))"

definition op_neg :: "'a::len elf_integer \<Rightarrow> ub + ('a elf_integer \<times> 'a elf_integer)" where
  "op_neg this =
     (let P = promoted_bits LENGTH('a); tmp = this in
      if sint (value tmp) \<noteq> sint (numeric_limits_min :: 'a word)
        then ub_bind (c_neg P (sint (value tmp))) (\<lambda>r. Inr (store tmp r, this))
      else Inr (tmp, this))"

text \<open>Running a member function \<open>n\<close> times on the same object.\<close>

primrec repeat :: "nat \<Rightarrow> ('s \<Rightarrow> ub + 's) \<Rightarrow> 's \<Rightarrow> ub + 's" where
  "repeat 0 f s = Inr s"
| "repeat (Suc n) f s = ub_bind (f s) (repeat n f)"

section \<open>Ranges and promoted arithmetic\<close>

lemma sint_word_of_int_in_range:
  assumes "- (2 ^ (LENGTH('a::len) - 1)) \<le> x" and "x < 2 ^ (LENGTH('a) - 1)"
  shows "sint (word_of_int x :: 'a word) = x"
proof -
  have "sint (word_of_int x :: 'a word) = signed_take_bit (LENGTH('a) - 1) x"
    by (rule sint_sbintrunc')
  also have "\<dots> = x"
    using assms by (rule signed_take_bit_int_eq_self)
  finally show ?thesis .
qed

lemma sint_numeric_limits_max:
  "sint (numeric_limits_max :: 'a::len word) = 2 ^ (LENGTH('a) - 1) - 1"
  unfolding numeric_limits_max_def
  by (rule sint_word_of_int_in_range) (simp_all del: One_nat_def)

lemma sint_numeric_limits_min:
  "sint (numeric_limits_min :: 'a::len word) = - (2 ^ (LENGTH('a) - 1))"
  unfolding numeric_limits_min_def
  by (rule sint_word_of_int_in_range) (simp_all del: One_nat_def)

lemma sint_store:
  fixes this :: "'a::len elf_integer"
  assumes "- (2 ^ (LENGTH('a) - 1)) \<le> x" and "x < 2 ^ (LENGTH('a) - 1)"
  shows "sint (value (store this x)) = x"
  using sint_word_of_int_in_range [OF assms] by (simp add: store_def)

lemma representable_mono:
  assumes "w \<le> p" and "- (2 ^ (w - 1)) \<le> x" and "x < 2 ^ (w - 1)"
  shows "representable p x"
proof -
  have "(2::int) ^ (w - 1) \<le> 2 ^ (p - 1)"
    using assms(1) by (intro power_increasing) auto
  with assms(2,3) show ?thesis
    unfolding representable_def by linarith
qed

lemma representable_promoted:
  assumes "- (2 ^ (w - 1)) \<le> x" and "x < 2 ^ (w - 1)"
  shows "representable (promoted_bits w) x"
  using _ assms by (rule representable_mono) (simp add: promoted_bits_def)

lemma checked_promoted:
  assumes "- (2 ^ (w - 1)) \<le> x" and "x < 2 ^ (w - 1)"
  shows "checked (promoted_bits w) x = Inr x"
  using representable_promoted [OF assms] by (simp add: checked_def)

lemma checked_promoted_narrow:
  assumes "w < int_bits"
  shows "checked (promoted_bits w) (2 ^ (w - 1)) = Inr (2 ^ (w - 1))"
proof -
  have "(2::int) ^ (w - 1) < 2 ^ (int_bits - 1)"
    using assms by (intro power_strict_increasing) (auto simp: int_bits_def)
  moreover have "- (2 ^ (int_bits - 1)) \<le> (2::int) ^ (w - 1)"
    by (rule order_trans [of _ 0]) simp_all
  ultimately show ?thesis
    using assms by (simp add: checked_def representable_def promoted_bits_def)
qed

section \<open>Truncating division on the integers\<close>

lemma sdiv_abs_le: "\<bar>x sdiv y\<bar> \<le> \<bar>x\<bar>" for x y :: int
  using sdiv_int_range [of x y] by auto

lemma sdiv_in_range:
  fixes v ov M :: int
  assumes "- M \<le> v" and "v < M" and "\<not> (v = - M \<and> ov = - 1)"
  shows "- M \<le> v sdiv ov \<and> v sdiv ov < M"
proof (cases "v = - M")
  case True
  with assms(3) have "ov \<noteq> - 1"
    by simp
  moreover have "v \<noteq> 0"
    using True assms(2) by linarith
  ultimately have "v sdiv ov \<noteq> - v"
    by simp
  with sdiv_abs_le [of v ov] True assms(2) show ?thesis
    by arith
next
  case False
  with sdiv_abs_le [of v ov] assms(1,2) show ?thesis
    by arith
qed

lemma smod_in_range:
  fixes v ov M :: int
  assumes "- M \<le> v" and "v < M"
  shows "- M \<le> v smod ov \<and> v smod ov < M"
proof -
  have nonneg: "0 \<le> \<bar>v\<bar> mod \<bar>ov\<bar>"
    by (cases "ov = 0") simp_all
  have le: "\<bar>v\<bar> mod \<bar>ov\<bar> \<le> \<bar>v\<bar>"
    by (rule zmod_le_nonneg_dividend) simp
  show ?thesis
  proof (cases "0 \<le> v")
    case True
    then have "v smod ov = \<bar>v\<bar> mod \<bar>ov\<bar> \<or> v smod ov = 0"
      by (auto simp: signed_modulo_int_def sgn_if)
    with nonneg le True assms show ?thesis
      by arith
  next
    case False
    then have "v smod ov = - (\<bar>v\<bar> mod \<bar>ov\<bar>)"
      by (simp add: signed_modulo_int_def sgn_if)
    with nonneg le False assms show ?thesis
      by arith
  qed
qed

lemma int_div_less_iff:
  fixes a b k :: int
  assumes "0 < b"
  shows "k div b < a \<longleftrightarrow> k < a * b"
proof
  assume "k div b < a"
  then have "(k div b + 1) * b \<le> a * b"
    using assms by (intro mult_right_mono) simp_all
  then have "k div b * b + b \<le> a * b"
    by (simp add: algebra_simps)
  moreover have "k div b * b + k mod b = k"
    by (fact div_mult_mod_eq)
  moreover have "k mod b < b"
    using assms by (rule pos_mod_bound)
  ultimately show "k < a * b"
    by linarith
next
  assume less: "k < a * b"
  show "k div b < a"
  proof (rule ccontr)
    assume "\<not> k div b < a"
    then have "a * b \<le> k div b * b"
      using assms by (intro mult_right_mono) simp_all
    moreover have "k div b * b + k mod b = k"
      by (fact div_mult_mod_eq)
    moreover have "0 \<le> k mod b"
      using assms by (rule pos_mod_sign)
    ultimately show False
      using less by linarith
  qed
qed

lemma sdiv_pos_pos: "0 \<le> x \<Longrightarrow> 0 < y \<Longrightarrow> x sdiv y = x div y" for x y :: int
  by (simp add: signed_divide_int_def sgn_if)

lemma sdiv_neg_neg: "x < 0 \<Longrightarrow> y < 0 \<Longrightarrow> x sdiv y = (- x) div (- y)" for x y :: int
  by (simp add: signed_divide_int_def sgn_if)

lemma sdiv_neg_pos: "x < 0 \<Longrightarrow> 0 < y \<Longrightarrow> x sdiv y = - ((- x) div y)" for x y :: int
  by (simp add: signed_divide_int_def sgn_if)

lemma sdiv_pos_neg: "0 \<le> x \<Longrightarrow> y < 0 \<Longrightarrow> x sdiv y = - (x div (- y))" for x y :: int
  by (simp add: signed_divide_int_def sgn_if)

text \<open>The four threshold tests of \<open>operator*=\<close>, on the integers.\<close>

lemma threshold_pos_pos:
  fixes v ov K :: int
  assumes "0 < ov" and "0 \<le> K"
  shows "K sdiv ov < v \<longleftrightarrow> K < v * ov"
  using assms by (simp add: sdiv_pos_pos int_div_less_iff)

lemma threshold_pos_neg:
  fixes v ov K :: int
  assumes "ov < 0" and "0 < K"
  shows "(- K) sdiv ov < v \<longleftrightarrow> v * ov < - K"
proof -
  have "(- K) sdiv ov = K div (- ov)"
    using sdiv_neg_neg [of "- K" ov] assms by simp
  moreover have "K div (- ov) < v \<longleftrightarrow> K < v * (- ov)"
    using assms by (intro int_div_less_iff) simp
  ultimately show ?thesis
    by auto
qed

lemma threshold_neg_pos:
  fixes v ov K :: int
  assumes "0 < ov" and "0 < K"
  shows "v < (- K) sdiv ov \<longleftrightarrow> v * ov < - K"
proof -
  have "(- K) sdiv ov = - (K div ov)"
    using sdiv_neg_pos [of "- K" ov] assms by simp
  moreover have "K div ov < - v \<longleftrightarrow> K < (- v) * ov"
    using assms by (intro int_div_less_iff)
  ultimately show ?thesis
    by (simp add: less_minus_iff)
qed

lemma threshold_neg_neg:
  fixes v ov K :: int
  assumes "ov < 0" and "0 \<le> K"
  shows "v < K sdiv ov \<longleftrightarrow> K < v * ov"
proof -
  have "K sdiv ov = - (K div (- ov))"
    using assms by (simp add: sdiv_pos_neg)
  moreover have "K div (- ov) < - v \<longleftrightarrow> K < (- v) * (- ov)"
    using assms by (intro int_div_less_iff) simp
  ultimately show ?thesis
    by (simp add: less_minus_iff)
qed

section \<open>Addition\<close>

text \<open>
  \<open>operator+=\<close> never leaves the promoted range, and stores the exact sum clamped to the
  range of \<open>T\<close>.
\<close>

lemma op_add_assign_eq:
  fixes this other :: "'a::len elf_integer"
  shows "op_add_assign this other =
     Inr (store this (max (sint (numeric_limits_min :: 'a word))
        (min (sint (numeric_limits_max :: 'a word)) (sint (value this) + sint (value other)))))"
proof -
  define M :: int where "M = 2 ^ (LENGTH('a) - 1)"
  define v where "v = sint (value this)"
  define ov where "ov = sint (value other)"
  have v: "- M \<le> v" "v < M" and ov: "- M \<le> ov" "ov < M"
    unfolding M_def v_def ov_def by (rule sint_ge sint_lt)+
  have chk: "\<And>x. - M \<le> x \<Longrightarrow> x < M \<Longrightarrow> checked (promoted_bits LENGTH('a)) x = Inr x"
    unfolding M_def by (rule checked_promoted)
  have lim: "sint (numeric_limits_max :: 'a word) = M - 1"
    "sint (numeric_limits_min :: 'a word) = - M"
    unfolding M_def by (rule sint_numeric_limits_max sint_numeric_limits_min)+
  have st: "\<And>x. store this x = this\<lparr>value := word_of_int x\<rparr>"
    by (simp add: store_def)
  have wmax: "(numeric_limits_max :: 'a word) = word_of_int (M - 1)"
    and wmin: "(numeric_limits_min :: 'a word) = word_of_int (- M)"
    unfolding M_def numeric_limits_max_def numeric_limits_min_def by simp_all
  show ?thesis
    unfolding op_add_assign_def Let_def lim v_def [symmetric] ov_def [symmetric]
      c_add_def c_sub_def sc_and_def ub_bind_def st
    using v ov by (auto simp: chk wmax wmin)
qed

lemma op_add_int8_examples:
  "op_add_assign \<lparr>value = 100 :: 8 word\<rparr> \<lparr>value = 100\<rparr> = Inr \<lparr>value = 127\<rparr>"
  "op_add_assign \<lparr>value = - 100 :: 8 word\<rparr> \<lparr>value = - 100\<rparr> = Inr \<lparr>value = - 128\<rparr>"
  by code_simp+

text \<open>
  C4. For all \<open>a\<close> and \<open>b\<close>, \<open>a += b\<close> and \<open>a + b\<close> return, without undefined behaviour,
  the exact sum clamped to \<open>[min(T), max(T)]\<close>: \<open>max(T)\<close> when \<open>b > 0\<close> and
  \<open>a > max(T) - b\<close>, \<open>min(T)\<close> when \<open>b < 0\<close> and \<open>a < min(T) - b\<close>, the exact sum otherwise.
\<close>

theorem op_add_assign_saturates:
  fixes a b :: "'a::len elf_integer"
  shows "\<exists>r. op_add_assign a b = Inr r \<and> op_add a b = Inr (r, a, b) \<and>
      sint (value r) =
        max (sint (numeric_limits_min :: 'a word))
          (min (sint (numeric_limits_max :: 'a word)) (sint (value a) + sint (value b))) \<and>
      sint (value r) =
        (if sint (value b) > 0 \<and>
            sint (value a) > sint (numeric_limits_max :: 'a word) - sint (value b)
           then sint (numeric_limits_max :: 'a word)
         else if sint (value b) < 0 \<and>
            sint (value a) < sint (numeric_limits_min :: 'a word) - sint (value b)
           then sint (numeric_limits_min :: 'a word)
         else sint (value a) + sint (value b))"
proof -
  let ?s = "max (sint (numeric_limits_min :: 'a word))
          (min (sint (numeric_limits_max :: 'a word)) (sint (value a) + sint (value b)))"
  have lim: "sint (numeric_limits_max :: 'a word) = 2 ^ (LENGTH('a) - 1) - 1"
    "sint (numeric_limits_min :: 'a word) = - (2 ^ (LENGTH('a) - 1))"
    by (rule sint_numeric_limits_max sint_numeric_limits_min)+
  have bnd: "- (2 ^ (LENGTH('a) - 1)) \<le> sint (value a)" "sint (value a) < 2 ^ (LENGTH('a) - 1)"
    "- (2 ^ (LENGTH('a) - 1)) \<le> sint (value b)" "sint (value b) < 2 ^ (LENGTH('a) - 1)"
    by (rule sint_ge sint_lt)+
  have "- (2 ^ (LENGTH('a) - 1)) \<le> ?s" and "?s < 2 ^ (LENGTH('a) - 1)"
    unfolding lim by simp_all
  then have stored: "sint (value (store a ?s)) = ?s"
    by (rule sint_store)
  have assign: "op_add_assign a b = Inr (store a ?s)"
    by (rule op_add_assign_eq)
  have binary: "op_add a b = Inr (store a ?s, a, b)"
    by (simp add: op_add_def ub_bind_def assign)
  have cases: "?s =
        (if sint (value b) > 0 \<and>
            sint (value a) > sint (numeric_limits_max :: 'a word) - sint (value b)
           then sint (numeric_limits_max :: 'a word)
         else if sint (value b) < 0 \<and>
            sint (value a) < sint (numeric_limits_min :: 'a word) - sint (value b)
           then sint (numeric_limits_min :: 'a word)
         else sint (value a) + sint (value b))"
    unfolding lim using bnd by (auto simp: max_def min_def)
  show ?thesis
    using assign binary stored cases by (intro exI [of _ "store a ?s"]) simp
qed

section \<open>Subtraction\<close>

lemma op_sub_assign_eq:
  fixes this other :: "'a::len elf_integer"
  shows "op_sub_assign this other =
     Inr (store this (max (sint (numeric_limits_min :: 'a word))
        (min (sint (numeric_limits_max :: 'a word)) (sint (value this) - sint (value other)))))"
proof -
  define M :: int where "M = 2 ^ (LENGTH('a) - 1)"
  define v where "v = sint (value this)"
  define ov where "ov = sint (value other)"
  have v: "- M \<le> v" "v < M" and ov: "- M \<le> ov" "ov < M"
    unfolding M_def v_def ov_def by (rule sint_ge sint_lt)+
  have chk: "\<And>x. - M \<le> x \<Longrightarrow> x < M \<Longrightarrow> checked (promoted_bits LENGTH('a)) x = Inr x"
    unfolding M_def by (rule checked_promoted)
  have lim: "sint (numeric_limits_max :: 'a word) = M - 1"
    "sint (numeric_limits_min :: 'a word) = - M"
    unfolding M_def by (rule sint_numeric_limits_max sint_numeric_limits_min)+
  have st: "\<And>x. store this x = this\<lparr>value := word_of_int x\<rparr>"
    by (simp add: store_def)
  have wmax: "(numeric_limits_max :: 'a word) = word_of_int (M - 1)"
    and wmin: "(numeric_limits_min :: 'a word) = word_of_int (- M)"
    unfolding M_def numeric_limits_max_def numeric_limits_min_def by simp_all
  show ?thesis
    unfolding op_sub_assign_def Let_def lim v_def [symmetric] ov_def [symmetric]
      c_add_def c_sub_def sc_and_def ub_bind_def st
    using v ov by (auto simp: chk wmax wmin)
qed

lemma op_sub_int8_examples:
  "op_sub_assign \<lparr>value = 0 :: 8 word\<rparr> \<lparr>value = - 128\<rparr> = Inr \<lparr>value = 127\<rparr>"
  "op_sub_assign \<lparr>value = - 1 :: 8 word\<rparr> \<lparr>value = - 128\<rparr> = Inr \<lparr>value = 127\<rparr>"
  "op_sub_assign \<lparr>value = - 128 :: 8 word\<rparr> \<lparr>value = - 128\<rparr> = Inr \<lparr>value = 0\<rparr>"
  "op_sub_assign \<lparr>value = - 100 :: 8 word\<rparr> \<lparr>value = 100\<rparr> = Inr \<lparr>value = - 128\<rparr>"
  by code_simp+

text \<open>
  C5. For all \<open>a\<close> and \<open>b\<close>, \<open>a -= b\<close> and \<open>a - b\<close> return, without undefined behaviour,
  the exact difference clamped to \<open>[min(T), max(T)]\<close>: \<open>min(T)\<close> when \<open>b > 0\<close> and the
  difference is below \<open>min(T)\<close>, \<open>max(T)\<close> when \<open>b < 0\<close> and the difference is above
  \<open>max(T)\<close>, the exact difference otherwise. \<open>b = min(T)\<close> is one of the values of \<open>b\<close>:
  the code never negates \<open>b\<close>.
\<close>

theorem op_sub_assign_saturates:
  fixes a b :: "'a::len elf_integer"
  shows "\<exists>r. op_sub_assign a b = Inr r \<and> op_sub a b = Inr (r, a, b) \<and>
      sint (value r) =
        max (sint (numeric_limits_min :: 'a word))
          (min (sint (numeric_limits_max :: 'a word)) (sint (value a) - sint (value b))) \<and>
      sint (value r) =
        (if sint (value b) > 0 \<and>
            sint (value a) - sint (value b) < sint (numeric_limits_min :: 'a word)
           then sint (numeric_limits_min :: 'a word)
         else if sint (value b) < 0 \<and>
            sint (value a) - sint (value b) > sint (numeric_limits_max :: 'a word)
           then sint (numeric_limits_max :: 'a word)
         else sint (value a) - sint (value b))"
proof -
  let ?s = "max (sint (numeric_limits_min :: 'a word))
          (min (sint (numeric_limits_max :: 'a word)) (sint (value a) - sint (value b)))"
  have lim: "sint (numeric_limits_max :: 'a word) = 2 ^ (LENGTH('a) - 1) - 1"
    "sint (numeric_limits_min :: 'a word) = - (2 ^ (LENGTH('a) - 1))"
    by (rule sint_numeric_limits_max sint_numeric_limits_min)+
  have bnd: "- (2 ^ (LENGTH('a) - 1)) \<le> sint (value a)" "sint (value a) < 2 ^ (LENGTH('a) - 1)"
    "- (2 ^ (LENGTH('a) - 1)) \<le> sint (value b)" "sint (value b) < 2 ^ (LENGTH('a) - 1)"
    by (rule sint_ge sint_lt)+
  have "- (2 ^ (LENGTH('a) - 1)) \<le> ?s" and "?s < 2 ^ (LENGTH('a) - 1)"
    unfolding lim by simp_all
  then have stored: "sint (value (store a ?s)) = ?s"
    by (rule sint_store)
  have assign: "op_sub_assign a b = Inr (store a ?s)"
    by (rule op_sub_assign_eq)
  have binary: "op_sub a b = Inr (store a ?s, a, b)"
    by (simp add: op_sub_def ub_bind_def assign)
  have cases: "?s =
        (if sint (value b) > 0 \<and>
            sint (value a) - sint (value b) < sint (numeric_limits_min :: 'a word)
           then sint (numeric_limits_min :: 'a word)
         else if sint (value b) < 0 \<and>
            sint (value a) - sint (value b) > sint (numeric_limits_max :: 'a word)
           then sint (numeric_limits_max :: 'a word)
         else sint (value a) - sint (value b))"
    unfolding lim using bnd by (auto simp: max_def min_def)
  show ?thesis
    using assign binary stored cases by (intro exI [of _ "store a ?s"]) simp
qed

section \<open>Division and remainder\<close>

lemma op_div_assign_eq:
  fixes this other :: "'a::len elf_integer"
  shows "op_div_assign this other =
     Inr (if sint (value other) = 0 then this\<lparr>value := numeric_limits_max\<rparr>
          else if sint (value this) = sint (numeric_limits_min :: 'a word) \<and> sint (value other) = - 1
            then this\<lparr>value := numeric_limits_max\<rparr>
          else store this (sint (value this) sdiv sint (value other)))"
proof -
  define M :: int where "M = 2 ^ (LENGTH('a) - 1)"
  define v where "v = sint (value this)"
  define ov where "ov = sint (value other)"
  have v: "- M \<le> v" "v < M" and ov: "- M \<le> ov" "ov < M"
    unfolding M_def v_def ov_def by (rule sint_ge sint_lt)+
  have chk: "\<And>x. - M \<le> x \<Longrightarrow> x < M \<Longrightarrow> checked (promoted_bits LENGTH('a)) x = Inr x"
    unfolding M_def by (rule checked_promoted)
  have lim: "sint (numeric_limits_max :: 'a word) = M - 1"
    "sint (numeric_limits_min :: 'a word) = - M"
    unfolding M_def by (rule sint_numeric_limits_max sint_numeric_limits_min)+
  have q: "- M \<le> v sdiv ov \<and> v sdiv ov < M" if "\<not> (v = - M \<and> ov = - 1)"
    using v that by (rule sdiv_in_range)
  show ?thesis
    unfolding op_div_assign_def Let_def lim v_def [symmetric] ov_def [symmetric]
      c_div_def ub_bind_def
    using q by (auto simp: chk)
qed

lemma op_mod_assign_eq:
  fixes this other :: "'a::len elf_integer"
  shows "op_mod_assign this other =
     Inr (if sint (value other) = 0 then this\<lparr>value := numeric_limits_max\<rparr>
          else if sint (value this) = sint (numeric_limits_min :: 'a word) \<and> sint (value other) = - 1
            then store this 0
          else store this (sint (value this) smod sint (value other)))"
proof -
  define M :: int where "M = 2 ^ (LENGTH('a) - 1)"
  define v where "v = sint (value this)"
  define ov where "ov = sint (value other)"
  have v: "- M \<le> v" "v < M" and ov: "- M \<le> ov" "ov < M"
    unfolding M_def v_def ov_def by (rule sint_ge sint_lt)+
  have rep: "\<And>x. - M \<le> x \<Longrightarrow> x < M \<Longrightarrow> representable (promoted_bits LENGTH('a)) x"
    unfolding M_def by (rule representable_promoted)
  have lim: "sint (numeric_limits_max :: 'a word) = M - 1"
    "sint (numeric_limits_min :: 'a word) = - M"
    unfolding M_def by (rule sint_numeric_limits_max sint_numeric_limits_min)+
  have q: "- M \<le> v sdiv ov \<and> v sdiv ov < M" if "\<not> (v = - M \<and> ov = - 1)"
    using v that by (rule sdiv_in_range)
  show ?thesis
    unfolding op_mod_assign_def Let_def lim v_def [symmetric] ov_def [symmetric]
      c_rem_def ub_bind_def
    using q by (auto simp: rep)
qed

lemma op_div_mod_int8_examples:
  "op_div_assign \<lparr>value = - 128 :: 8 word\<rparr> \<lparr>value = - 1\<rparr> = Inr \<lparr>value = 127\<rparr>"
  "op_div_assign \<lparr>value = 5 :: 8 word\<rparr> \<lparr>value = 0\<rparr> = Inr \<lparr>value = 127\<rparr>"
  "op_div_assign \<lparr>value = - 7 :: 8 word\<rparr> \<lparr>value = 2\<rparr> = Inr \<lparr>value = - 3\<rparr>"
  "op_mod_assign \<lparr>value = - 128 :: 8 word\<rparr> \<lparr>value = - 1\<rparr> = Inr \<lparr>value = 0\<rparr>"
  "op_mod_assign \<lparr>value = 5 :: 8 word\<rparr> \<lparr>value = 0\<rparr> = Inr \<lparr>value = 127\<rparr>"
  "op_mod_assign \<lparr>value = - 7 :: 8 word\<rparr> \<lparr>value = 2\<rparr> = Inr \<lparr>value = - 1\<rparr>"
  by code_simp+

text \<open>
  C6. For all \<open>a\<close> and \<open>b\<close>, \<open>a /= b\<close> and \<open>a / b\<close> return a value and no error: \<open>max(T)\<close>
  when \<open>b = 0\<close>, \<open>max(T)\<close> when \<open>a = min(T)\<close> and \<open>b = -1\<close>, and the quotient truncated
  towards zero in every other case.
\<close>

theorem op_div_assign_saturates:
  fixes a b :: "'a::len elf_integer"
  shows "\<exists>r. op_div_assign a b = Inr r \<and> op_div a b = Inr (r, a, b) \<and>
      sint (value r) =
        (if sint (value b) = 0 then sint (numeric_limits_max :: 'a word)
         else if sint (value a) = sint (numeric_limits_min :: 'a word) \<and> sint (value b) = - 1
           then sint (numeric_limits_max :: 'a word)
         else sint (value a) sdiv sint (value b))"
proof -
  let ?q = "sint (value a) sdiv sint (value b)"
  let ?r = "if sint (value b) = 0 then a\<lparr>value := numeric_limits_max\<rparr>
          else if sint (value a) = sint (numeric_limits_min :: 'a word) \<and> sint (value b) = - 1
            then a\<lparr>value := numeric_limits_max\<rparr>
          else store a ?q"
  have lim: "sint (numeric_limits_min :: 'a word) = - (2 ^ (LENGTH('a) - 1))"
    by (rule sint_numeric_limits_min)
  have bnd: "- (2 ^ (LENGTH('a) - 1)) \<le> sint (value a)" "sint (value a) < 2 ^ (LENGTH('a) - 1)"
    by (rule sint_ge sint_lt)+
  have assign: "op_div_assign a b = Inr ?r"
    by (rule op_div_assign_eq)
  have binary: "op_div a b = Inr (?r, a, b)"
    by (simp add: op_div_def ub_bind_def assign)
  have stored: "sint (value (store a ?q)) = ?q"
    if "\<not> (sint (value a) = sint (numeric_limits_min :: 'a word) \<and> sint (value b) = - 1)"
  proof (rule sint_store)
    from that have "\<not> (sint (value a) = - (2 ^ (LENGTH('a) - 1)) \<and> sint (value b) = - 1)"
      unfolding lim .
    with bnd have "- (2 ^ (LENGTH('a) - 1)) \<le> ?q \<and> ?q < 2 ^ (LENGTH('a) - 1)"
      by (rule sdiv_in_range)
    then show "- (2 ^ (LENGTH('a) - 1)) \<le> ?q" and "?q < 2 ^ (LENGTH('a) - 1)"
      by simp_all
  qed
  show ?thesis
    using assign binary stored by (intro exI [of _ ?r]) simp
qed

text \<open>
  C7. For all \<open>a\<close> and \<open>b\<close>, \<open>a %= b\<close> and \<open>a % b\<close> return \<open>max(T)\<close> when \<open>b = 0\<close>, \<open>0\<close>
  when \<open>a = min(T)\<close> and \<open>b = -1\<close>, and the remainder of the truncating division in
  every other case.
\<close>

theorem op_mod_assign_exact:
  fixes a b :: "'a::len elf_integer"
  shows "\<exists>r. op_mod_assign a b = Inr r \<and> op_mod a b = Inr (r, a, b) \<and>
      sint (value r) =
        (if sint (value b) = 0 then sint (numeric_limits_max :: 'a word)
         else if sint (value a) = sint (numeric_limits_min :: 'a word) \<and> sint (value b) = - 1
           then 0
         else sint (value a) smod sint (value b))"
proof -
  let ?m = "sint (value a) smod sint (value b)"
  let ?r = "if sint (value b) = 0 then a\<lparr>value := numeric_limits_max\<rparr>
          else if sint (value a) = sint (numeric_limits_min :: 'a word) \<and> sint (value b) = - 1
            then store a 0
          else store a ?m"
  have bnd: "- (2 ^ (LENGTH('a) - 1)) \<le> sint (value a)" "sint (value a) < 2 ^ (LENGTH('a) - 1)"
    by (rule sint_ge sint_lt)+
  have assign: "op_mod_assign a b = Inr ?r"
    by (rule op_mod_assign_eq)
  have binary: "op_mod a b = Inr (?r, a, b)"
    by (simp add: op_mod_def ub_bind_def assign)
  have zero: "sint (value (store a 0)) = 0"
    by (simp add: store_def)
  have stored: "sint (value (store a ?m)) = ?m"
  proof (rule sint_store)
    from bnd have "- (2 ^ (LENGTH('a) - 1)) \<le> ?m \<and> ?m < 2 ^ (LENGTH('a) - 1)"
      by (rule smod_in_range)
    then show "- (2 ^ (LENGTH('a) - 1)) \<le> ?m" and "?m < 2 ^ (LENGTH('a) - 1)"
      by simp_all
  qed
  show ?thesis
    using assign binary stored zero by (intro exI [of _ ?r]) simp
qed

section \<open>Negation\<close>

lemma op_neg_eq:
  fixes this :: "'a::len elf_integer"
  shows "op_neg this =
     Inr (if sint (value this) \<noteq> sint (numeric_limits_min :: 'a word)
          then store this (- sint (value this)) else this, this)"
proof -
  define M :: int where "M = 2 ^ (LENGTH('a) - 1)"
  define v where "v = sint (value this)"
  have v: "- M \<le> v" "v < M"
    unfolding M_def v_def by (rule sint_ge sint_lt)+
  have chk: "\<And>x. - M \<le> x \<Longrightarrow> x < M \<Longrightarrow> checked (promoted_bits LENGTH('a)) x = Inr x"
    unfolding M_def by (rule checked_promoted)
  have lim: "sint (numeric_limits_max :: 'a word) = M - 1"
    "sint (numeric_limits_min :: 'a word) = - M"
    unfolding M_def by (rule sint_numeric_limits_max sint_numeric_limits_min)+
  show ?thesis
    unfolding op_neg_def Let_def lim v_def [symmetric] c_neg_def ub_bind_def
    using v by (auto simp: chk)
qed

lemma op_neg_int8_examples:
  "op_neg \<lparr>value = - 128 :: 8 word\<rparr> = Inr (\<lparr>value = - 128\<rparr>, \<lparr>value = - 128\<rparr>)"
  "op_neg \<lparr>value = 5 :: 8 word\<rparr> = Inr (\<lparr>value = - 5\<rparr>, \<lparr>value = 5\<rparr>)"
  by code_simp+

text \<open>
  C8. For every \<open>a\<close>, unary minus returns \<open>- a\<close> when \<open>a \<noteq> min(T)\<close> and \<open>min(T)\<close> itself
  when \<open>a = min(T)\<close>; the operand is left as it was.
\<close>

theorem op_neg_saturates:
  fixes a :: "'a::len elf_integer"
  shows "\<exists>r. op_neg a = Inr (r, a) \<and>
      sint (value r) =
        (if sint (value a) = sint (numeric_limits_min :: 'a word)
           then sint (numeric_limits_min :: 'a word)
         else - sint (value a))"
proof -
  let ?r = "if sint (value a) \<noteq> sint (numeric_limits_min :: 'a word)
          then store a (- sint (value a)) else a"
  have lim: "sint (numeric_limits_min :: 'a word) = - (2 ^ (LENGTH('a) - 1))"
    by (rule sint_numeric_limits_min)
  have bnd: "- (2 ^ (LENGTH('a) - 1)) \<le> sint (value a)" "sint (value a) < 2 ^ (LENGTH('a) - 1)"
    by (rule sint_ge sint_lt)+
  have neg: "op_neg a = Inr (?r, a)"
    by (rule op_neg_eq)
  have stored: "sint (value (store a (- sint (value a)))) = - sint (value a)"
    if "sint (value a) \<noteq> sint (numeric_limits_min :: 'a word)"
    using that bnd unfolding lim by (intro sint_store) linarith+
  show ?thesis
    using neg stored by (intro exI [of _ ?r]) simp
qed

section \<open>Multiplication\<close>

text \<open>
  When \<open>T\<close> is narrower than \<open>int\<close>, or unless \<open>*this\<close> is positive and \<open>other\<close> is \<open>-1\<close>,
  \<open>operator*=\<close> stays in the promoted range and stores the exact product clamped to the
  range of \<open>T\<close>.
\<close>

lemma op_mul_assign_eq:
  fixes this other :: "'a::len elf_integer"
  assumes "LENGTH('a) < int_bits \<or> \<not> (0 < sint (value this) \<and> sint (value other) = - 1)"
  shows "op_mul_assign this other =
     Inr (store this (max (sint (numeric_limits_min :: 'a word))
        (min (sint (numeric_limits_max :: 'a word)) (sint (value this) * sint (value other)))))"
proof -
  define M :: int where "M = 2 ^ (LENGTH('a) - 1)"
  define v where "v = sint (value this)"
  define ov where "ov = sint (value other)"
  define P where "P = promoted_bits LENGTH('a)"
  have v: "- M \<le> v" "v < M" and ov: "- M \<le> ov" "ov < M"
    unfolding M_def v_def ov_def by (rule sint_ge sint_lt)+
  have chk: "\<And>x. - M \<le> x \<Longrightarrow> x < M \<Longrightarrow> checked P x = Inr x"
    unfolding M_def P_def by (rule checked_promoted)
  have chk_M: "checked P M = Inr M" if "LENGTH('a) < int_bits"
    unfolding M_def P_def using that by (rule checked_promoted_narrow)
  have lim: "sint (numeric_limits_max :: 'a word) = M - 1"
    "sint (numeric_limits_min :: 'a word) = - M"
    unfolding M_def by (rule sint_numeric_limits_max sint_numeric_limits_min)+
  have st: "\<And>x. store this x = this\<lparr>value := word_of_int x\<rparr>"
    by (simp add: store_def)
  have wmax: "(numeric_limits_max :: 'a word) = word_of_int (M - 1)"
    and wmin: "(numeric_limits_min :: 'a word) = word_of_int (- M)"
    unfolding M_def numeric_limits_max_def numeric_limits_min_def by simp_all
  define qmax where "qmax = (M - 1) sdiv ov"
  define qmin where "qmin = (- M) sdiv ov"
  have narrow: "LENGTH('a) < int_bits" if "0 < v" "ov = - 1"
    using assms that unfolding v_def ov_def by simp
  have chk_max: "checked P qmax = Inr qmax"
  proof -
    have "M - 1 \<noteq> - M"
      using v by presburger
    then have "- M \<le> qmax \<and> qmax < M"
      unfolding qmax_def using v by (intro sdiv_in_range) simp_all
    then show ?thesis
      by (simp add: chk)
  qed
  have chk_min: "checked P qmin = Inr qmin" if "0 < v \<or> 0 < ov"
  proof (cases "ov = - 1")
    case True
    with that have "LENGTH('a) < int_bits"
      by (intro narrow) simp_all
    moreover have "qmin = M"
      unfolding qmin_def True by simp
    ultimately show ?thesis
      by (simp add: chk_M)
  next
    case False
    have "- M \<le> qmin \<and> qmin < M"
      unfolding qmin_def using v False by (intro sdiv_in_range) simp_all
    then show ?thesis
      by (simp add: chk)
  qed
  note unfold = op_mul_assign_def Let_def lim v_def [symmetric] ov_def [symmetric]
    P_def [symmetric] c_div_def c_mul_def sc_and_def ub_bind_def st
    qmax_def [symmetric] qmin_def [symmetric]
  show ?thesis
  proof (cases "v = 0 \<or> ov = 0")
    case True
    then have "v * ov = 0"
      by auto
    moreover have "0 < M"
      using v by linarith
    ultimately have "max (- M) (min (M - 1) (v * ov)) = 0"
      by auto
    with True show ?thesis
      unfolding unfold by simp
  next
    case False
    then consider (pp) "0 < v" "0 < ov" | (pn) "0 < v" "ov < 0"
      | (np) "v < 0" "0 < ov" | (nn) "v < 0" "ov < 0"
      by linarith
    then show ?thesis
    proof cases
      case pp
      have test: "qmax < v \<longleftrightarrow> M - 1 < v * ov"
        unfolding qmax_def using pp v by (intro threshold_pos_pos) linarith+
      have sign: "0 < v * ov"
        using pp by (rule mult_pos_pos)
      have prod: "checked P (v * ov) = Inr (v * ov)" if "\<not> M - 1 < v * ov"
        using that sign v by (intro chk) linarith+
      have clamp: "max (- M) (min (M - 1) (v * ov)) = (if M - 1 < v * ov then M - 1 else v * ov)"
        using sign v by arith
      show ?thesis
        unfolding unfold clamp using pp test by (simp add: chk_max prod wmax)
    next
      case pn
      have test: "qmin < v \<longleftrightarrow> v * ov < - M"
        unfolding qmin_def using pn v by (intro threshold_pos_neg) linarith+
      have sign: "v * ov < 0"
        using pn by (rule mult_pos_neg)
      have prod: "checked P (v * ov) = Inr (v * ov)" if "\<not> v * ov < - M"
        using that sign v by (intro chk) linarith+
      have clamp: "max (- M) (min (M - 1) (v * ov)) = (if v * ov < - M then - M else v * ov)"
        using sign v by arith
      show ?thesis
        unfolding unfold clamp using pn test by (simp add: chk_min prod wmin)
    next
      case np
      have test: "v < qmin \<longleftrightarrow> v * ov < - M"
        unfolding qmin_def using np v by (intro threshold_neg_pos) linarith+
      have sign: "v * ov < 0"
        using np by (rule mult_neg_pos)
      have prod: "checked P (v * ov) = Inr (v * ov)" if "\<not> v * ov < - M"
        using that sign v by (intro chk) linarith+
      have clamp: "max (- M) (min (M - 1) (v * ov)) = (if v * ov < - M then - M else v * ov)"
        using sign v by arith
      show ?thesis
        unfolding unfold clamp using np test by (simp add: chk_min prod wmin)
    next
      case nn
      have test: "v < qmax \<longleftrightarrow> M - 1 < v * ov"
        unfolding qmax_def using nn v by (intro threshold_neg_neg) linarith+
      have sign: "0 < v * ov"
        using nn by (rule mult_neg_neg)
      have prod: "checked P (v * ov) = Inr (v * ov)" if "\<not> M - 1 < v * ov"
        using that sign v by (intro chk) linarith+
      have clamp: "max (- M) (min (M - 1) (v * ov)) = (if M - 1 < v * ov then M - 1 else v * ov)"
        using sign v by arith
      show ?thesis
        unfolding unfold clamp using nn test by (simp add: chk_max prod wmax)
    qed
  qed
qed

text \<open>
  In the remaining case, a positive \<open>*this\<close> and \<open>other = -1\<close> in a type as wide as \<open>int\<close>,
  the second test evaluates \<open>std::numeric_limits<T>::min() / other.value\<close>, whose quotient
  the type does not represent. \<open>operator/=\<close> guards the same division; \<open>operator*=\<close>
  does not.
\<close>

lemma op_mul_assign_overflow:
  fixes this other :: "'a::len elf_integer"
  assumes "int_bits \<le> LENGTH('a)" and "0 < sint (value this)" and "sint (value other) = - 1"
  shows "op_mul_assign this other = Inl SignedOverflow"
proof -
  have lim: "sint (numeric_limits_min :: 'a word) = - (2 ^ (LENGTH('a) - 1))"
    by (rule sint_numeric_limits_min)
  have P: "promoted_bits LENGTH('a) = LENGTH('a)"
    using assms(1) by (simp add: promoted_bits_def)
  have "\<not> representable LENGTH('a) (2 ^ (LENGTH('a) - 1))"
    by (simp add: representable_def)
  then have "c_div (promoted_bits LENGTH('a)) (sint (numeric_limits_min :: 'a word)) (- 1)
      = Inl SignedOverflow"
    unfolding lim P by (simp add: c_div_def checked_def)
  with assms(2,3) show ?thesis
    by (simp add: op_mul_assign_def Let_def sc_and_def ub_bind_def)
qed

lemma op_mul_int8_examples:
  "op_mul_assign \<lparr>value = 100 :: 8 word\<rparr> \<lparr>value = 100\<rparr> = Inr \<lparr>value = 127\<rparr>"
  "op_mul_assign \<lparr>value = - 100 :: 8 word\<rparr> \<lparr>value = 100\<rparr> = Inr \<lparr>value = - 128\<rparr>"
  "op_mul_assign \<lparr>value = 100 :: 8 word\<rparr> \<lparr>value = - 1\<rparr> = Inr \<lparr>value = - 100\<rparr>"
  "op_mul_assign \<lparr>value = 0 :: 8 word\<rparr> \<lparr>value = - 1\<rparr> = Inr \<lparr>value = 0\<rparr>"
  by code_simp+

text \<open>
  C2. The claim that no operation ever computes an intermediate value outside the range
  of its arithmetic fails on \<open>operator*=\<close>: for \<open>elf_integer<int32_t>\<close> and
  \<open>elf_integer<int64_t>\<close>, \<open>a = 1\<close> and \<open>b = -1\<close> make it divide \<open>min(T)\<close> by \<open>-1\<close>, a
  signed overflow.
\<close>

theorem op_mul_assign_divides_min_by_minus_one:
  "op_mul_assign \<lparr>value = 1 :: 32 word\<rparr> \<lparr>value = - 1\<rparr> = Inl SignedOverflow \<and>
    op_mul_assign \<lparr>value = 1 :: 64 word\<rparr> \<lparr>value = - 1\<rparr> = Inl SignedOverflow"
  by code_simp

text \<open>
  C3. The claim that \<open>a *= b\<close> and \<open>a * b\<close> yield the clamped exact product for all \<open>a\<close>
  and \<open>b\<close> fails on the same division: for \<open>elf_integer<int32_t>\<close>, \<open>100 * -1\<close> is a signed
  overflow in the threshold test and not \<open>-100\<close>.
\<close>

theorem op_mul_int32_times_minus_one:
  "op_mul_assign \<lparr>value = 100 :: 32 word\<rparr> \<lparr>value = - 1\<rparr> = Inl SignedOverflow \<and>
    op_mul \<lparr>value = 100 :: 32 word\<rparr> \<lparr>value = - 1\<rparr> = Inl SignedOverflow"
  by code_simp

section \<open>Increment and decrement\<close>

lemma op_pre_inc_eq:
  fixes this :: "'a::len elf_integer"
  shows "op_pre_inc this =
     Inr (if sint (value this) < sint (numeric_limits_max :: 'a word)
          then store this (sint (value this) + 1) else this)"
proof -
  define M :: int where "M = 2 ^ (LENGTH('a) - 1)"
  define v where "v = sint (value this)"
  have v: "- M \<le> v" "v < M"
    unfolding M_def v_def by (rule sint_ge sint_lt)+
  have chk: "\<And>x. - M \<le> x \<Longrightarrow> x < M \<Longrightarrow> checked (promoted_bits LENGTH('a)) x = Inr x"
    unfolding M_def by (rule checked_promoted)
  have lim: "sint (numeric_limits_max :: 'a word) = M - 1"
    unfolding M_def by (rule sint_numeric_limits_max)
  show ?thesis
    unfolding op_pre_inc_def Let_def lim v_def [symmetric] c_add_def ub_bind_def
    using v by (auto simp: chk)
qed

lemma op_post_inc_eq:
  fixes this :: "'a::len elf_integer"
  shows "op_post_inc this =
     Inr (this, if sint (value this) < sint (numeric_limits_max :: 'a word)
          then store this (sint (value this) + 1) else this)"
proof -
  define M :: int where "M = 2 ^ (LENGTH('a) - 1)"
  define v where "v = sint (value this)"
  have v: "- M \<le> v" "v < M"
    unfolding M_def v_def by (rule sint_ge sint_lt)+
  have chk: "\<And>x. - M \<le> x \<Longrightarrow> x < M \<Longrightarrow> checked (promoted_bits LENGTH('a)) x = Inr x"
    unfolding M_def by (rule checked_promoted)
  have lim: "sint (numeric_limits_max :: 'a word) = M - 1"
    unfolding M_def by (rule sint_numeric_limits_max)
  show ?thesis
    unfolding op_post_inc_def Let_def lim v_def [symmetric] c_add_def ub_bind_def
    using v by (auto simp: chk)
qed

lemma op_pre_dec_eq:
  fixes this :: "'a::len elf_integer"
  shows "op_pre_dec this =
     Inr (if sint (value this) > sint (numeric_limits_min :: 'a word)
          then store this (sint (value this) - 1) else this)"
proof -
  define M :: int where "M = 2 ^ (LENGTH('a) - 1)"
  define v where "v = sint (value this)"
  have v: "- M \<le> v" "v < M"
    unfolding M_def v_def by (rule sint_ge sint_lt)+
  have chk: "\<And>x. - M \<le> x \<Longrightarrow> x < M \<Longrightarrow> checked (promoted_bits LENGTH('a)) x = Inr x"
    unfolding M_def by (rule checked_promoted)
  have lim: "sint (numeric_limits_min :: 'a word) = - M"
    unfolding M_def by (rule sint_numeric_limits_min)
  show ?thesis
    unfolding op_pre_dec_def Let_def lim v_def [symmetric] c_sub_def ub_bind_def
    using v by (auto simp: chk)
qed

lemma op_post_dec_eq:
  fixes this :: "'a::len elf_integer"
  shows "op_post_dec this =
     Inr (this, if sint (value this) > sint (numeric_limits_min :: 'a word)
          then store this (sint (value this) - 1) else this)"
proof -
  define M :: int where "M = 2 ^ (LENGTH('a) - 1)"
  define v where "v = sint (value this)"
  have v: "- M \<le> v" "v < M"
    unfolding M_def v_def by (rule sint_ge sint_lt)+
  have chk: "\<And>x. - M \<le> x \<Longrightarrow> x < M \<Longrightarrow> checked (promoted_bits LENGTH('a)) x = Inr x"
    unfolding M_def by (rule checked_promoted)
  have lim: "sint (numeric_limits_min :: 'a word) = - M"
    unfolding M_def by (rule sint_numeric_limits_min)
  show ?thesis
    unfolding op_post_dec_def Let_def lim v_def [symmetric] c_sub_def ub_bind_def
    using v by (auto simp: chk)
qed

lemma repeat_fixed: "f s = Inr s \<Longrightarrow> repeat n f s = Inr s"
  by (induction n) (simp_all add: ub_bind_def)

lemma op_inc_dec_int8_examples:
  "repeat 3 op_pre_inc \<lparr>value = 126 :: 8 word\<rparr> = Inr \<lparr>value = 127\<rparr>"
  "repeat 3 op_pre_dec \<lparr>value = - 127 :: 8 word\<rparr> = Inr \<lparr>value = - 128\<rparr>"
  "op_post_inc \<lparr>value = 126 :: 8 word\<rparr> = Inr (\<lparr>value = 126\<rparr>, \<lparr>value = 127\<rparr>)"
  "op_post_dec \<lparr>value = - 128 :: 8 word\<rparr> = Inr (\<lparr>value = - 128\<rparr>, \<lparr>value = - 128\<rparr>)"
  by code_simp+

text \<open>
  C9. For every \<open>a\<close>, \<open>++\<close> (prefix and postfix) stores \<open>a + 1\<close> when \<open>a < max(T)\<close> and leaves
  \<open>a\<close> as it is at \<open>max(T)\<close>; \<open>--\<close> stores \<open>a - 1\<close> when \<open>a > min(T)\<close> and leaves \<open>a\<close> as it
  is at \<open>min(T)\<close>; the postfix forms return the old value. Neither has an undefined step,
  and any number of increments of \<open>max(T)\<close> gives \<open>max(T)\<close>, any number of decrements of
  \<open>min(T)\<close> gives \<open>min(T)\<close>.
\<close>

theorem op_inc_dec_saturate:
  fixes a :: "'a::len elf_integer"
  shows "(\<exists>r. op_pre_inc a = Inr r \<and> op_post_inc a = Inr (a, r) \<and>
        r = (if sint (value a) < sint (numeric_limits_max :: 'a word)
             then store a (sint (value a) + 1) else a) \<and>
        sint (value r) =
          (if sint (value a) < sint (numeric_limits_max :: 'a word)
           then sint (value a) + 1 else sint (value a))) \<and>
    (\<exists>r. op_pre_dec a = Inr r \<and> op_post_dec a = Inr (a, r) \<and>
        r = (if sint (value a) > sint (numeric_limits_min :: 'a word)
             then store a (sint (value a) - 1) else a) \<and>
        sint (value r) =
          (if sint (value a) > sint (numeric_limits_min :: 'a word)
           then sint (value a) - 1 else sint (value a))) \<and>
    repeat n op_pre_inc \<lparr>value = numeric_limits_max :: 'a word\<rparr>
      = Inr \<lparr>value = numeric_limits_max\<rparr> \<and>
    repeat n op_pre_dec \<lparr>value = numeric_limits_min :: 'a word\<rparr>
      = Inr \<lparr>value = numeric_limits_min\<rparr> \<and>
    repeat n (\<lambda>s. ub_bind (op_post_inc s) (\<lambda>(tmp, this). Inr this))
        \<lparr>value = numeric_limits_max :: 'a word\<rparr>
      = Inr \<lparr>value = numeric_limits_max\<rparr> \<and>
    repeat n (\<lambda>s. ub_bind (op_post_dec s) (\<lambda>(tmp, this). Inr this))
        \<lparr>value = numeric_limits_min :: 'a word\<rparr>
      = Inr \<lparr>value = numeric_limits_min\<rparr>"
proof -
  have lim: "sint (numeric_limits_max :: 'a word) = 2 ^ (LENGTH('a) - 1) - 1"
    "sint (numeric_limits_min :: 'a word) = - (2 ^ (LENGTH('a) - 1))"
    by (rule sint_numeric_limits_max sint_numeric_limits_min)+
  have bnd: "- (2 ^ (LENGTH('a) - 1)) \<le> sint (value a)" "sint (value a) < 2 ^ (LENGTH('a) - 1)"
    by (rule sint_ge sint_lt)+
  have up: "sint (value (store a (sint (value a) + 1))) = sint (value a) + 1"
    if "sint (value a) < sint (numeric_limits_max :: 'a word)"
    using that bnd unfolding lim by (intro sint_store) linarith+
  have down: "sint (value (store a (sint (value a) - 1))) = sint (value a) - 1"
    if "sint (value a) > sint (numeric_limits_min :: 'a word)"
    using that bnd unfolding lim by (intro sint_store) linarith+
  have inc: "\<exists>r. op_pre_inc a = Inr r \<and> op_post_inc a = Inr (a, r) \<and>
        r = (if sint (value a) < sint (numeric_limits_max :: 'a word)
             then store a (sint (value a) + 1) else a) \<and>
        sint (value r) =
          (if sint (value a) < sint (numeric_limits_max :: 'a word)
           then sint (value a) + 1 else sint (value a))"
    using up by (simp add: op_pre_inc_eq op_post_inc_eq)
  have dec: "\<exists>r. op_pre_dec a = Inr r \<and> op_post_dec a = Inr (a, r) \<and>
        r = (if sint (value a) > sint (numeric_limits_min :: 'a word)
             then store a (sint (value a) - 1) else a) \<and>
        sint (value r) =
          (if sint (value a) > sint (numeric_limits_min :: 'a word)
           then sint (value a) - 1 else sint (value a))"
    using down by (simp add: op_pre_dec_eq op_post_dec_eq)
  have at_max: "op_pre_inc \<lparr>value = numeric_limits_max :: 'a word\<rparr>
      = Inr \<lparr>value = numeric_limits_max\<rparr>"
    "ub_bind (op_post_inc \<lparr>value = numeric_limits_max :: 'a word\<rparr>) (\<lambda>(tmp, this). Inr this)
      = Inr \<lparr>value = numeric_limits_max\<rparr>"
    by (simp_all add: op_pre_inc_eq op_post_inc_eq ub_bind_def)
  have at_min: "op_pre_dec \<lparr>value = numeric_limits_min :: 'a word\<rparr>
      = Inr \<lparr>value = numeric_limits_min\<rparr>"
    "ub_bind (op_post_dec \<lparr>value = numeric_limits_min :: 'a word\<rparr>) (\<lambda>(tmp, this). Inr this)
      = Inr \<lparr>value = numeric_limits_min\<rparr>"
    by (simp_all add: op_pre_dec_eq op_post_dec_eq ub_bind_def)
  have stay_max: "repeat n op_pre_inc \<lparr>value = numeric_limits_max :: 'a word\<rparr>
      = Inr \<lparr>value = numeric_limits_max\<rparr>"
    "repeat n (\<lambda>s. ub_bind (op_post_inc s) (\<lambda>(tmp, this). Inr this))
        \<lparr>value = numeric_limits_max :: 'a word\<rparr>
      = Inr \<lparr>value = numeric_limits_max\<rparr>"
    by (simp_all add: repeat_fixed at_max)
  have stay_min: "repeat n op_pre_dec \<lparr>value = numeric_limits_min :: 'a word\<rparr>
      = Inr \<lparr>value = numeric_limits_min\<rparr>"
    "repeat n (\<lambda>s. ub_bind (op_post_dec s) (\<lambda>(tmp, this). Inr this))
        \<lparr>value = numeric_limits_min :: 'a word\<rparr>
      = Inr \<lparr>value = numeric_limits_min\<rparr>"
    by (simp_all add: repeat_fixed at_min)
  show ?thesis
    using inc dec stay_max stay_min by (intro conjI)
qed

section \<open>Binary operators\<close>

text \<open>
  C10. For all \<open>a\<close> and \<open>b\<close>, each of \<open>a + b\<close>, \<open>a - b\<close>, \<open>a * b\<close>, \<open>a / b\<close> and \<open>a % b\<close>
  returns what the corresponding compound assignment leaves in a copy of \<open>a\<close>, undefined
  behaviour included, and leaves \<open>a\<close> and \<open>b\<close> as they were.
\<close>

theorem binary_operators_copy_then_assign:
  fixes a b :: "'a::len elf_integer"
  shows "op_add a b = (case op_add_assign a b of Inl e \<Rightarrow> Inl e | Inr tmp \<Rightarrow> Inr (tmp, a, b)) \<and>
    op_sub a b = (case op_sub_assign a b of Inl e \<Rightarrow> Inl e | Inr tmp \<Rightarrow> Inr (tmp, a, b)) \<and>
    op_mul a b = (case op_mul_assign a b of Inl e \<Rightarrow> Inl e | Inr tmp \<Rightarrow> Inr (tmp, a, b)) \<and>
    op_div a b = (case op_div_assign a b of Inl e \<Rightarrow> Inl e | Inr tmp \<Rightarrow> Inr (tmp, a, b)) \<and>
    op_mod a b = (case op_mod_assign a b of Inl e \<Rightarrow> Inl e | Inr tmp \<Rightarrow> Inr (tmp, a, b))"
  by (simp add: op_add_def op_sub_def op_mul_def op_div_def op_mod_def ub_bind_def)

section \<open>Construction from another width\<close>

text \<open>
  The member \<open>value\<close> always lies within the bounds of its own type, so neither comparison
  of the converting constructor is ever true: the constructor is the conversion of the
  member initialiser alone. It keeps every source value that \<open>T\<close> represents.
\<close>

lemma elf_integer_from_eq:
  fixes other :: "'b::len elf_integer"
  shows "(elf_integer_from other :: 'a::len elf_integer) = \<lparr>value = scast (value other)\<rparr>"
proof -
  have "sint (scast (value other) :: 'a word) \<le> sint (numeric_limits_max :: 'a word)"
    using sint_lt [of "scast (value other) :: 'a word"]
    by (simp add: sint_numeric_limits_max)
  moreover have "sint (numeric_limits_min :: 'a word) \<le> sint (scast (value other) :: 'a word)"
    using sint_ge [of "scast (value other) :: 'a word"]
    by (simp add: sint_numeric_limits_min)
  ultimately show ?thesis
    by (simp add: elf_integer_from_def Let_def)
qed

lemma elf_integer_from_in_range:
  fixes other :: "'b::len elf_integer"
  assumes "sint (numeric_limits_min :: 'a::len word) \<le> sint (value other)"
    and "sint (value other) \<le> sint (numeric_limits_max :: 'a word)"
  shows "sint (value (elf_integer_from other :: 'a elf_integer)) = sint (value other)"
proof -
  have "sint (scast (value other) :: 'a word) = sint (word_of_int (sint (value other)) :: 'a word)"
    by (simp only: scast_eq)
  also have "\<dots> = sint (value other)"
    using assms unfolding sint_numeric_limits_min sint_numeric_limits_max
    by (intro sint_word_of_int_in_range) linarith+
  finally show ?thesis
    by (simp add: elf_integer_from_eq)
qed

text \<open>
  C1. The claim that the converting constructor clamps fails: from \<open>elf_integer<int32_t>\<close>
  to \<open>elf_integer<int8_t>\<close>, \<open>200\<close> becomes \<open>-56\<close> and \<open>-200\<close> becomes \<open>56\<close>, the low eight
  bits of the source, where the claim says \<open>127\<close> and \<open>-128\<close>.
\<close>

theorem elf_integer_from_int32_to_int8:
  "sint (value (elf_integer_from \<lparr>value = 200 :: 32 word\<rparr> :: 8 elf_integer)) = - 56 \<and>
    sint (value (elf_integer_from \<lparr>value = - 200 :: 32 word\<rparr> :: 8 elf_integer)) = 56"
  by code_simp

end
